theory Spec2Isabelle
  imports Main "HOL-Library.Word"
begin

section \<open>Python values\<close>

text \<open>
  A Python \<open>str\<close> is a sequence of Unicode code points (0 to 0x10FFFF, lone surrogates
  included); \<open>len\<close> counts code points. A \<open>bytes\<close> value is a sequence of octets.
  String literals of the source are written with \<open>str_of\<close>.
\<close>

type_synonym str = "nat list"
type_synonym byte = "8 word"
type_synonym bytes = "byte list"

definition str_of :: "string \<Rightarrow> str" where
  "str_of s = map of_char s"

text \<open>
  \<open>str.isupper\<close>, \<open>str.islower\<close> and \<open>str.isdigit\<close> of a one-character string. On ASCII
  they are the ranges A-Z, a-z and 0-9; beyond ASCII they read the Unicode character
  database, which is not part of the repository and is taken as a parameter. So do
  \<open>str.isalpha\<close>, \<open>str.isdecimal\<close> and \<open>str.isnumeric\<close>, from which Python defines
  \<open>str.isalnum\<close>.
\<close>

record unicode_db =
  db_isupper :: "nat \<Rightarrow> bool"
  db_islower :: "nat \<Rightarrow> bool"
  db_isdigit :: "nat \<Rightarrow> bool"
  db_isalpha :: "nat \<Rightarrow> bool"
  db_isdecimal :: "nat \<Rightarrow> bool"
  db_isnumeric :: "nat \<Rightarrow> bool"

definition isupper :: "unicode_db \<Rightarrow> nat \<Rightarrow> bool" where
  "isupper U c = (if c < 128 then 65 \<le> c \<and> c \<le> 90 else db_isupper U c)"

definition islower :: "unicode_db \<Rightarrow> nat \<Rightarrow> bool" where
  "islower U c = (if c < 128 then 97 \<le> c \<and> c \<le> 122 else db_islower U c)"

definition isdigit :: "unicode_db \<Rightarrow> nat \<Rightarrow> bool" where
  "isdigit U c = (if c < 128 then 48 \<le> c \<and> c \<le> 57 else db_isdigit U c)"

definition isalpha :: "unicode_db \<Rightarrow> nat \<Rightarrow> bool" where
  "isalpha U c =
     (if c < 128 then (65 \<le> c \<and> c \<le> 90) \<or> (97 \<le> c \<and> c \<le> 122) else db_isalpha U c)"

definition isdecimal :: "unicode_db \<Rightarrow> nat \<Rightarrow> bool" where
  "isdecimal U c = (if c < 128 then 48 \<le> c \<and> c \<le> 57 else db_isdecimal U c)"

definition isnumeric :: "unicode_db \<Rightarrow> nat \<Rightarrow> bool" where
  "isnumeric U c = (if c < 128 then 48 \<le> c \<and> c \<le> 57 else db_isnumeric U c)"

text \<open>
  \<open>str.isalnum\<close>: a character is alphanumeric when one of \<open>isalpha\<close>, \<open>isdecimal\<close>,
  \<open>isdigit\<close>, \<open>isnumeric\<close> holds of it.
\<close>

definition isalnum :: "unicode_db \<Rightarrow> nat \<Rightarrow> bool" where
  "isalnum U c \<longleftrightarrow> isalpha U c \<or> isdecimal U c \<or> isdigit U c \<or> isnumeric U c"

text \<open>A character database with no letter and no digit beyond ASCII, for examples.\<close>

definition ascii_db :: unicode_db where
  "ascii_db =
     \<lparr>db_isupper = (\<lambda>c. False), db_islower = (\<lambda>c. False), db_isdigit = (\<lambda>c. False),
      db_isalpha = (\<lambda>c. False), db_isdecimal = (\<lambda>c. False), db_isnumeric = (\<lambda>c. False)\<rparr>"

text \<open>
  The entries of the Unicode character database for the circled Latin letters: the
  capitals U+24B6 to U+24CF are uppercase and the small letters U+24D0 to U+24E9 are
  lowercase (properties Other_Uppercase and Other_Lowercase), and as symbols (category So)
  they are neither alphabetic nor numeric.
\<close>

definition circled_letters_db :: unicode_db where
  "circled_letters_db =
     \<lparr>db_isupper = (\<lambda>c. 0x24B6 \<le> c \<and> c \<le> 0x24CF),
      db_islower = (\<lambda>c. 0x24D0 \<le> c \<and> c \<le> 0x24E9), db_isdigit = (\<lambda>c. False),
      db_isalpha = (\<lambda>c. False), db_isdecimal = (\<lambda>c. False), db_isnumeric = (\<lambda>c. False)\<rparr>"


section \<open>crypto_manager.py: validate_password_strength\<close>

definition special_characters :: str where
  "special_characters = str_of ''!@#$%^&*()_+-=[]{}|;:,.<>?''"

definition too_short_message :: str where
  "too_short_message = str_of ''Password must be at least 8 characters long''"

definition too_few_classes_message :: str where
  "too_few_classes_message =
     str_of ''Password must contain at least 3 of: uppercase, lowercase, digit, special character''"

definition has_upper :: "unicode_db \<Rightarrow> str \<Rightarrow> bool" where
  "has_upper U password = list_ex (isupper U) password"

definition has_lower :: "unicode_db \<Rightarrow> str \<Rightarrow> bool" where
  "has_lower U password = list_ex (islower U) password"

definition has_digit :: "unicode_db \<Rightarrow> str \<Rightarrow> bool" where
  "has_digit U password = list_ex (isdigit U) password"

definition has_special :: "str \<Rightarrow> bool" where
  "has_special password = list_ex (\<lambda>c. c \<in> set special_characters) password"

definition strength_checks :: "unicode_db \<Rightarrow> str \<Rightarrow> bool list" where
  "strength_checks U password =
     [has_upper U password, has_lower U password, has_digit U password, has_special password]"

text \<open>Python's \<open>sum\<close> of a list of booleans counts the true ones.\<close>

definition sum_bools :: "bool list \<Rightarrow> nat" where
  "sum_bools bs = sum_list (map of_bool bs)"

definition validate_password_strength :: "unicode_db \<Rightarrow> str \<Rightarrow> bool \<times> str" where
  "validate_password_strength U password =
     (if length password < 8 then (False, too_short_message)
      else if sum_bools (strength_checks U password) < 3 then (False, too_few_classes_message)
      else (True, []))"

text \<open>
  The rule in the words of the specification, for comparison with the code: the four
  character classes, and validity as "length at least 8 and at least 3 of the 4 classes
  present".
\<close>

datatype char_class = Uppercase | Lowercase | Digit | Symbol

fun in_class :: "unicode_db \<Rightarrow> char_class \<Rightarrow> nat \<Rightarrow> bool" where
  "in_class U Uppercase c = isupper U c"
| "in_class U Lowercase c = islower U c"
| "in_class U Digit c = isdigit U c"
| "in_class U Symbol c = (c \<in> set special_characters)"

definition classes_present :: "unicode_db \<Rightarrow> str \<Rightarrow> char_class set" where
  "classes_present U password = {k. \<exists>c \<in> set password. in_class U k c}"

definition spec_valid :: "unicode_db \<Rightarrow> str \<Rightarrow> bool" where
  "spec_valid U password \<longleftrightarrow> 8 \<le> length password \<and> 3 \<le> card (classes_present U password)"

text \<open>The letters and digits of ASCII, written out.\<close>

definition ascii_alphanumeric :: str where
  "ascii_alphanumeric = str_of ''ABCDEFGHIJKLMNOPQRSTUVWXYZabcdefghijklmnopqrstuvwxyz0123456789''"


section \<open>Exceptions\<close>

text \<open>
  The exceptions that the code can meet, all subclasses of Python's \<open>Exception\<close>.
  \<open>UnicodeEncodeError obj start end\<close> and \<open>UnicodeDecodeError obj start end reason\<close>
  are raised by the UTF-8 codec, \<open>InvalidToken\<close> by Fernet, \<open>OSError\<close> by file
  operations, \<open>OverflowError\<close> by sqlite3; \<open>LibraryError cls msg\<close> is an exception of a
  library's own class \<open>cls\<close>. \<open>ValueError\<close>, \<open>OSError\<close>, \<open>OverflowError\<close> and
  \<open>LibraryError\<close> carry their message. An exception raised while another one is being
  handled chains that one as its \<open>__context__\<close>: this is the second argument of
  \<open>ValueError\<close> and the argument of \<open>InvalidToken\<close>.
\<close>

datatype decode_reason = InvalidStartByte | InvalidContinuationByte | UnexpectedEndOfData

datatype pyexn =
    UnicodeEncodeError str nat nat
  | UnicodeDecodeError bytes nat nat decode_reason
  | InvalidToken "pyexn option"
  | ValueError str "pyexn option"
  | OSError str
  | OverflowError str
  | LibraryError str str

text \<open>\<open>try: body except Exception as e: handler\<close>.\<close>

definition try_except :: "pyexn + 'a \<Rightarrow> (pyexn \<Rightarrow> pyexn + 'a) \<Rightarrow> pyexn + 'a" where
  "try_except body handler = (case body of Inl e \<Rightarrow> handler e | Inr v \<Rightarrow> Inr v)"

text \<open>
  Decimal numerals as \<open>%d\<close> prints them, and lower-case hexadecimal numerals of 2, 4 and
  8 digits as \<open>%02x\<close>, \<open>%04x\<close> and \<open>%08x\<close> print them.
\<close>

fun show_nat :: "nat \<Rightarrow> str" where
  "show_nat n = (if n < 10 then [48 + n] else show_nat (n div 10) @ [48 + n mod 10])"

declare show_nat.simps [simp del]

definition hex_digit :: "nat \<Rightarrow> nat" where
  "hex_digit d = (if d < 10 then 48 + d else 87 + d)"

definition hex2 :: "nat \<Rightarrow> str" where
  "hex2 n = [hex_digit (n div 16 mod 16), hex_digit (n mod 16)]"

definition hex4 :: "nat \<Rightarrow> str" where
  "hex4 n = hex2 (n div 256) @ hex2 n"

definition hex8 :: "nat \<Rightarrow> str" where
  "hex8 n = hex4 (n div 65536) @ hex4 n"

definition reason_text :: "decode_reason \<Rightarrow> str" where
  "reason_text r =
     (case r of InvalidStartByte \<Rightarrow> str_of ''invalid start byte''
      | InvalidContinuationByte \<Rightarrow> str_of ''invalid continuation byte''
      | UnexpectedEndOfData \<Rightarrow> str_of ''unexpected end of data'')"

text \<open>The character escape in the message of a \<open>UnicodeEncodeError\<close>; 92 is the backslash.\<close>

definition escape_char :: "nat \<Rightarrow> str" where
  "escape_char c =
     (if c \<le> 0xFF then [92, 120] @ hex2 c
      else if c \<le> 0xFFFF then [92, 117] @ hex4 c
      else [92, 85] @ hex8 c)"

text \<open>
  \<open>str(e)\<close>. The codec errors print the position (or range of positions) of the
  offending input; an \<open>InvalidToken\<close> is raised without arguments, so its text is
  empty; the text of the others is their message. 39 is the single quote, 45 the hyphen.
\<close>

definition codec_name :: str where
  "codec_name = [39] @ str_of ''utf-8'' @ [39] @ str_of '' codec can't ''"

definition encode_error_text :: "str \<Rightarrow> nat \<Rightarrow> nat \<Rightarrow> str" where
  "encode_error_text obj start end =
     (if start < length obj \<and> end = start + 1
      then codec_name @ str_of ''encode character '' @ [39] @ escape_char (obj ! start) @ [39]
           @ str_of '' in position '' @ show_nat start @ str_of '': surrogates not allowed''
      else codec_name @ str_of ''encode characters in position '' @ show_nat start @ [45]
           @ show_nat (end - 1) @ str_of '': surrogates not allowed'')"

definition decode_error_text :: "bytes \<Rightarrow> nat \<Rightarrow> nat \<Rightarrow> decode_reason \<Rightarrow> str" where
  "decode_error_text obj start end reason =
     (if start < length obj \<and> end = start + 1
      then codec_name @ str_of ''decode byte 0x'' @ hex2 (unat (obj ! start))
           @ str_of '' in position '' @ show_nat start @ str_of '': '' @ reason_text reason
      else codec_name @ str_of ''decode bytes in position '' @ show_nat start @ [45]
           @ show_nat (end - 1) @ str_of '': '' @ reason_text reason)"

fun exn_str :: "pyexn \<Rightarrow> str" where
  "exn_str (UnicodeEncodeError obj start end) = encode_error_text obj start end"
| "exn_str (UnicodeDecodeError obj start end reason) = decode_error_text obj start end reason"
| "exn_str (InvalidToken ctx) = []"
| "exn_str (ValueError msg ctx) = msg"
| "exn_str (OSError msg) = msg"
| "exn_str (OverflowError msg) = msg"
| "exn_str (LibraryError cls msg) = msg"


section \<open>The UTF-8 codec: str.encode() and bytes.decode()\<close>

definition is_surrogate :: "nat \<Rightarrow> bool" where
  "is_surrogate c \<longleftrightarrow> 0xD800 \<le> c \<and> c \<le> 0xDFFF"

definition utf8_encode_char :: "nat \<Rightarrow> bytes" where
  "utf8_encode_char c =
     (if c < 0x80 then [of_nat c]
      else if c < 0x800 then [of_nat (0xC0 + c div 64), of_nat (0x80 + c mod 64)]
      else if c < 0x10000 then
        [of_nat (0xE0 + c div 4096), of_nat (0x80 + c div 64 mod 64), of_nat (0x80 + c mod 64)]
      else
        [of_nat (0xF0 + c div 262144), of_nat (0x80 + c div 4096 mod 64),
         of_nat (0x80 + c div 64 mod 64), of_nat (0x80 + c mod 64)])"

text \<open>
  Encoding from position \<open>i\<close> of \<open>obj\<close>. A surrogate cannot be encoded: the error
  reports the run of surrogates that starts there.
\<close>

fun utf8_encode_from :: "nat \<Rightarrow> str \<Rightarrow> str \<Rightarrow> pyexn + bytes" where
  "utf8_encode_from i obj [] = Inr []"
| "utf8_encode_from i obj (c # cs) =
     (if is_surrogate c
      then Inl (UnicodeEncodeError obj i (i + 1 + length (takeWhile is_surrogate cs)))
      else (case utf8_encode_from (Suc i) obj cs of
              Inl e \<Rightarrow> Inl e
            | Inr bs \<Rightarrow> Inr (utf8_encode_char c @ bs)))"

definition str_encode :: "str \<Rightarrow> pyexn + bytes" where
  "str_encode s = utf8_encode_from 0 s s"

definition is_continuation :: "byte \<Rightarrow> bool" where
  "is_continuation b \<longleftrightarrow> 0x80 \<le> unat b \<and> unat b < 0xC0"

text \<open>
  One step of the decoder, on the lead byte \<open>b0\<close> and the bytes \<open>bs\<close> after it: the
  code point and the number of bytes it took, or the reason of the failure and the number
  of bytes the error spans. The lead byte selects a sequence of two, three or four bytes.
\<close>

definition decode_two :: "nat \<Rightarrow> bytes \<Rightarrow> (decode_reason \<times> nat) + (nat \<times> nat)" where
  "decode_two ch bs =
     (if ch < 0xC2 then Inl (InvalidStartByte, 1)
      else (case bs of
              [] \<Rightarrow> Inl (UnexpectedEndOfData, 1)
            | b1 # _ \<Rightarrow>
                if \<not> is_continuation b1 then Inl (InvalidContinuationByte, 1)
                else Inr (ch * 64 + unat b1 - 0x3080, 2)))"

definition decode_three :: "nat \<Rightarrow> bytes \<Rightarrow> (decode_reason \<times> nat) + (nat \<times> nat)" where
  "decode_three ch bs =
     (case bs of
        [] \<Rightarrow> Inl (UnexpectedEndOfData, 1)
      | [b1] \<Rightarrow>
          if \<not> is_continuation b1 \<or> (if unat b1 < 0xA0 then ch = 0xE0 else ch = 0xED)
          then Inl (InvalidContinuationByte, 1)
          else Inl (UnexpectedEndOfData, 2)
      | b1 # b2 # _ \<Rightarrow>
          if \<not> is_continuation b1 then Inl (InvalidContinuationByte, 1)
          else if ch = 0xE0 \<and> unat b1 < 0xA0 then Inl (InvalidContinuationByte, 1)
          else if ch = 0xED \<and> 0xA0 \<le> unat b1 then Inl (InvalidContinuationByte, 1)
          else if \<not> is_continuation b2 then Inl (InvalidContinuationByte, 2)
          else Inr (ch * 4096 + unat b1 * 64 + unat b2 - 0xE2080, 3))"

definition decode_four :: "nat \<Rightarrow> bytes \<Rightarrow> (decode_reason \<times> nat) + (nat \<times> nat)" where
  "decode_four ch bs =
     (case bs of
        [] \<Rightarrow> Inl (UnexpectedEndOfData, 1)
      | [b1] \<Rightarrow>
          if \<not> is_continuation b1 \<or> (if unat b1 < 0x90 then ch = 0xF0 else ch = 0xF4)
          then Inl (InvalidContinuationByte, 1)
          else Inl (UnexpectedEndOfData, 2)
      | [b1, b2] \<Rightarrow>
          if \<not> is_continuation b1 \<or> (if unat b1 < 0x90 then ch = 0xF0 else ch = 0xF4)
          then Inl (InvalidContinuationByte, 1)
          else if \<not> is_continuation b2 then Inl (InvalidContinuationByte, 2)
          else Inl (UnexpectedEndOfData, 3)
      | b1 # b2 # b3 # _ \<Rightarrow>
          if \<not> is_continuation b1 then Inl (InvalidContinuationByte, 1)
          else if ch = 0xF0 \<and> unat b1 < 0x90 then Inl (InvalidContinuationByte, 1)
          else if ch = 0xF4 \<and> 0x90 \<le> unat b1 then Inl (InvalidContinuationByte, 1)
          else if \<not> is_continuation b2 then Inl (InvalidContinuationByte, 2)
          else if \<not> is_continuation b3 then Inl (InvalidContinuationByte, 3)
          else Inr (ch * 262144 + unat b1 * 4096 + unat b2 * 64 + unat b3 - 0x3C82080, 4))"

definition utf8_decode_step :: "byte \<Rightarrow> bytes \<Rightarrow> (decode_reason \<times> nat) + (nat \<times> nat)" where
  "utf8_decode_step b0 bs =
     (let ch = unat b0 in
      if ch < 0x80 then Inr (ch, 1)
      else if ch < 0xE0 then decode_two ch bs
      else if ch < 0xF0 then decode_three ch bs
      else if ch < 0xF5 then decode_four ch bs
      else Inl (InvalidStartByte, 1))"

text \<open>The loop of the decoder, from position \<open>i\<close> of \<open>obj\<close>.\<close>

function utf8_decode_from :: "nat \<Rightarrow> bytes \<Rightarrow> bytes \<Rightarrow> pyexn + str" where
  "utf8_decode_from i obj [] = Inr []"
| "utf8_decode_from i obj (b # bs) =
     (case utf8_decode_step b bs of
        Inl (reason, n) \<Rightarrow> Inl (UnicodeDecodeError obj i (i + n) reason)
      | Inr (c, k) \<Rightarrow>
          (case utf8_decode_from (i + k) obj (drop (k - 1) bs) of
             Inl e \<Rightarrow> Inl e
           | Inr s \<Rightarrow> Inr (c # s)))"
  by pat_completeness auto
termination
proof (relation "measure (\<lambda>(i, obj, bs). length bs)")
  show "wf (measure (\<lambda>(i, obj, bs). length bs))" by simp
next
  fix i :: nat and obj :: bytes and b :: byte and bs :: bytes and k :: nat
  show "((i + k, obj, drop (k - 1) bs), (i, obj, b # bs)) \<in> measure (\<lambda>(i, obj, bs). length bs)"
    by simp
qed

definition bytes_decode :: "bytes \<Rightarrow> pyexn + str" where
  "bytes_decode bs = utf8_decode_from 0 bs bs"

text \<open>The strings that \<open>encode\<close> accepts: code points of the Unicode range, no surrogate.\<close>

definition encodable :: "str \<Rightarrow> bool" where
  "encodable s = list_all (\<lambda>c. c < 0x110000 \<and> \<not> is_surrogate c) s"


section \<open>database.py: update_credential\<close>

text \<open>
  The \<open>credentials\<close> table: a row per credential; \<open>url\<close>, \<open>notes\<close> and the two
  timestamps are nullable columns (the column \<open>notes\<close> is the field
  \<open>notes_text\<close>). The \<open>settings\<close> table maps a key to a value.
\<close>

record credential =
  cred_id :: int
  website :: str
  username :: str
  encrypted_password :: str
  url :: "str option"
  notes_text :: "str option"
  created_at :: "str option"
  modified_at :: "str option"

record database =
  credentials :: "credential list"
  settings :: "(str \<times> str) list"

datatype column = Website | Username | Encrypted_password | Url | Notes | Modified_at

datatype sql_value = SqlText str | SqlInteger int

text \<open>
  The statement \<open>UPDATE credentials SET c1 = ?, ..., cn = ? WHERE id = ?\<close> that
  \<open>update_credential\<close> assembles, as the list of its assigned columns.
\<close>

datatype statement = UpdateCredentials "column list"

fun set_column :: "column \<Rightarrow> str \<Rightarrow> credential \<Rightarrow> credential" where
  "set_column Website v r = r\<lparr>website := v\<rparr>"
| "set_column Username v r = r\<lparr>username := v\<rparr>"
| "set_column Encrypted_password v r = r\<lparr>encrypted_password := v\<rparr>"
| "set_column Url v r = r\<lparr>url := Some v\<rparr>"
| "set_column Notes v r = r\<lparr>notes_text := Some v\<rparr>"
| "set_column Modified_at v r = r\<lparr>modified_at := Some v\<rparr>"

fun assign :: "column list \<Rightarrow> sql_value list \<Rightarrow> credential \<Rightarrow> credential" where
  "assign (c # cs) (SqlText v # vs) r = assign cs vs (set_column c v r)"
| "assign cs vs r = r"

text \<open>
  Binding the values to the statement, in order: sqlite3 raises \<open>UnicodeEncodeError\<close> on a
  text that has no UTF-8 encoding and \<open>OverflowError\<close> on an integer outside the 64-bit
  range of an SQLite INTEGER.
\<close>

fun bind_parameters :: "sql_value list \<Rightarrow> pyexn option" where
  "bind_parameters [] = None"
| "bind_parameters (SqlText v # vs) =
     (case str_encode v of Inl e \<Rightarrow> Some e | Inr encoded \<Rightarrow> bind_parameters vs)"
| "bind_parameters (SqlInteger i # vs) =
     (if - (2 ^ 63) \<le> i \<and> i < 2 ^ 63 then bind_parameters vs
      else Some (OverflowError (str_of ''Python int too large to convert to SQLite INTEGER'')))"

text \<open>
  \<open>cursor.execute(query, values)\<close> followed by \<open>conn.commit()\<close>: the last bound value
  is the id of the \<open>WHERE\<close> clause, the others are bound to the assignments in order.
  When binding raises, no row is changed.
\<close>

fun execute :: "database \<Rightarrow> statement \<Rightarrow> sql_value list \<Rightarrow> pyexn + database" where
  "execute db (UpdateCredentials cs) vs =
     (case bind_parameters vs of
        Some e \<Rightarrow> Inl e
      | None \<Rightarrow>
          if vs = [] then Inr db
          else Inr (db\<lparr>credentials :=
                 map (\<lambda>r. if SqlInteger (cred_id r) = last vs then assign cs (butlast vs) r else r)
                     (credentials db)\<rparr>))"

text \<open>One \<open>if x is not None: updates.append(...); values.append(x)\<close> of the source.\<close>

fun provided :: "column \<Rightarrow> str option \<Rightarrow> column list \<times> sql_value list \<Rightarrow> column list \<times> sql_value list" where
  "provided c None (updates, vals) = (updates, vals)"
| "provided c (Some v) (updates, vals) = (updates @ [c], vals @ [SqlText v])"

definition collect_updates ::
  "str option \<Rightarrow> str option \<Rightarrow> str option \<Rightarrow> str option \<Rightarrow> str option
     \<Rightarrow> column list \<times> sql_value list" where
  "collect_updates w u p l n =
     provided Notes n (provided Url l (provided Encrypted_password p
       (provided Username u (provided Website w ([], [])))))"

text \<open>
  The statement that \<open>update_credential\<close> hands to the cursor, if any; \<open>now\<close> is the
  value of \<open>datetime.now().isoformat()\<close>.
\<close>

definition update_statement ::
  "str \<Rightarrow> int \<Rightarrow> str option \<Rightarrow> str option \<Rightarrow> str option \<Rightarrow> str option \<Rightarrow> str option
     \<Rightarrow> (statement \<times> sql_value list) option" where
  "update_statement now credential_id w u p l n =
     (case collect_updates w u p l n of (updates, vals) \<Rightarrow>
        if updates = [] then None
        else Some (UpdateCredentials (updates @ [Modified_at]),
                   vals @ [SqlText now] @ [SqlInteger credential_id]))"

definition update_credential ::
  "str \<Rightarrow> database \<Rightarrow> int \<Rightarrow> str option \<Rightarrow> str option \<Rightarrow> str option \<Rightarrow> str option \<Rightarrow> str option
     \<Rightarrow> pyexn + database" where
  "update_credential now db credential_id w u p l n =
     (case update_statement now credential_id w u p l n of
        None \<Rightarrow> Inr db
      | Some (query, vals) \<Rightarrow> execute db query vals)"


section \<open>crypto_manager.py: the salt file\<close>

text \<open>
  The part of the file system that \<open>_load_or_create_salt\<close> touches: what is at each
  path of the working directory, and whether files can be created there. An entry is a
  file the process may open (\<open>Regular\<close>, with its content), a file it has no permission
  to open (\<open>Protected\<close>), or a directory.
\<close>

datatype file_entry = Regular bytes | Protected | Directory

record filesystem =
  files :: "str \<Rightarrow> file_entry option"
  can_create :: bool

definition SALT_FILE :: str where
  "SALT_FILE = str_of ''salt.key''"

definition ITERATIONS :: nat where
  "ITERATIONS = 480000"

text \<open>\<open>os.path.exists(path)\<close>.\<close>

definition path_exists :: "filesystem \<Rightarrow> str \<Rightarrow> bool" where
  "path_exists fs path = (files fs path \<noteq> None)"

text \<open>The ways in which opening a file fails.\<close>

definition permission_denied :: "str \<Rightarrow> pyexn" where
  "permission_denied path = OSError (str_of ''[Errno 13] Permission denied: '' @ [39] @ path @ [39])"

definition is_a_directory :: "str \<Rightarrow> pyexn" where
  "is_a_directory path = OSError (str_of ''[Errno 21] Is a directory: '' @ [39] @ path @ [39])"

definition no_such_file :: "str \<Rightarrow> pyexn" where
  "no_such_file path =
     OSError (str_of ''[Errno 2] No such file or directory: '' @ [39] @ path @ [39])"

text \<open>\<open>with open(path, 'rb') as f: return f.read()\<close>.\<close>

definition read_file :: "filesystem \<Rightarrow> str \<Rightarrow> pyexn + bytes" where
  "read_file fs path =
     (case files fs path of
        Some (Regular content) \<Rightarrow> Inr content
      | Some Protected \<Rightarrow> Inl (permission_denied path)
      | Some Directory \<Rightarrow> Inl (is_a_directory path)
      | None \<Rightarrow> Inl (no_such_file path))"

text \<open>\<open>with open(path, 'wb') as f: f.write(content)\<close>.\<close>

definition write_file :: "filesystem \<Rightarrow> str \<Rightarrow> bytes \<Rightarrow> pyexn + filesystem" where
  "write_file fs path content =
     (case files fs path of
        Some Protected \<Rightarrow> Inl (permission_denied path)
      | Some Directory \<Rightarrow> Inl (is_a_directory path)
      | Some (Regular old) \<Rightarrow> Inr (fs\<lparr>files := (files fs)(path \<mapsto> Regular content)\<rparr>)
      | None \<Rightarrow>
          if can_create fs then Inr (fs\<lparr>files := (files fs)(path \<mapsto> Regular content)\<rparr>)
          else Inl (permission_denied path))"

text \<open>
  \<open>_load_or_create_salt\<close>. \<open>urandom\<close> is \<open>os.urandom\<close>, the random source of the
  operating system. The result is the salt, or the exception raised, and the file system
  afterwards.
\<close>

definition load_or_create_salt ::
  "(nat \<Rightarrow> bytes) \<Rightarrow> filesystem \<Rightarrow> (pyexn + bytes) \<times> filesystem" where
  "load_or_create_salt urandom fs =
     (if path_exists fs SALT_FILE then (read_file fs SALT_FILE, fs)
      else
        (let salt = urandom 16 in
         case write_file fs SALT_FILE salt of
           Inl e \<Rightarrow> (Inl e, fs)
         | Inr fs' \<Rightarrow> (Inr salt, fs')))"


section \<open>crypto_manager.py: key derivation\<close>

text \<open>
  \<open>base64.urlsafe_b64encode\<close>: three bytes become four characters of the alphabet
  A-Z, a-z, 0-9, hyphen, underscore; a last group of one or two bytes is padded with the
  equals sign (61).
\<close>

definition b64_alphabet :: bytes where
  "b64_alphabet =
     map of_char ''ABCDEFGHIJKLMNOPQRSTUVWXYZabcdefghijklmnopqrstuvwxyz0123456789-_''"

definition b64_char :: "nat \<Rightarrow> byte" where
  "b64_char n = b64_alphabet ! (n mod 64)"

fun urlsafe_b64encode :: "bytes \<Rightarrow> bytes" where
  "urlsafe_b64encode [] = []"
| "urlsafe_b64encode [a] =
     [b64_char (unat a div 4), b64_char (unat a mod 4 * 16), 61, 61]"
| "urlsafe_b64encode [a, b] =
     [b64_char (unat a div 4), b64_char (unat a mod 4 * 16 + unat b div 16),
      b64_char (unat b mod 16 * 4), 61]"
| "urlsafe_b64encode (a # b # c # rest) =
     [b64_char (unat a div 4), b64_char (unat a mod 4 * 16 + unat b div 16),
      b64_char (unat b mod 16 * 4 + unat c div 64), b64_char (unat c mod 64)]
     @ urlsafe_b64encode rest"

text \<open>
  The attributes of a \<open>CryptoManager\<close> that \<open>_derive_key\<close> reads, and the whole
  object. \<open>'f\<close> is the type of a \<open>Fernet\<close> instance.
\<close>

record key_material =
  master_password :: str
  salt :: bytes

record 'f crypto_manager = key_material +
  key :: bytes
  fernet :: 'f

text \<open>
  \<open>_derive_key\<close>. \<open>PBKDF2HMAC(SHA256, length, salt, iterations).derive(password)\<close> of
  the cryptography library is the parameter \<open>pbkdf2\<close>, applied to password, salt,
  iterations and length.
\<close>

type_synonym kdf = "bytes \<Rightarrow> bytes \<Rightarrow> nat \<Rightarrow> nat \<Rightarrow> bytes"

definition derive_key :: "kdf \<Rightarrow> 'a key_material_scheme \<Rightarrow> pyexn + bytes" where
  "derive_key pbkdf2 self =
     (case str_encode (master_password self) of
        Inl e \<Rightarrow> Inl e
      | Inr password \<Rightarrow> Inr (urlsafe_b64encode (pbkdf2 password (salt self) ITERATIONS 32)))"


section \<open>crypto_manager.py: encrypt and decrypt\<close>

text \<open>
  The Fernet recipe of the cryptography library, as a parameter: \<open>fernet_new key\<close> is
  \<open>Fernet(key)\<close>; \<open>fernet_encrypt f (iv, now) data\<close> is \<open>f.encrypt(data)\<close> when the
  random source gives \<open>iv\<close> and the clock reads \<open>now\<close>; \<open>fernet_decrypt f token\<close> is
  \<open>f.decrypt(token)\<close>, which raises when the token does not verify.
\<close>

type_synonym entropy = "bytes \<times> nat"

record 'f fernet_lib =
  fernet_new :: "bytes \<Rightarrow> pyexn + 'f"
  fernet_encrypt :: "'f \<Rightarrow> entropy \<Rightarrow> bytes \<Rightarrow> bytes"
  fernet_decrypt :: "'f \<Rightarrow> bytes \<Rightarrow> pyexn + bytes"

text \<open>\<open>CryptoManager.__init__\<close>: the new object, or the exception, and the file system.\<close>

definition init ::
  "'f fernet_lib \<Rightarrow> kdf \<Rightarrow> (nat \<Rightarrow> bytes) \<Rightarrow> filesystem \<Rightarrow> str
     \<Rightarrow> (pyexn + 'f crypto_manager) \<times> filesystem" where
  "init F pbkdf2 urandom fs password =
     (case load_or_create_salt urandom fs of
        (Inl e, fs') \<Rightarrow> (Inl e, fs')
      | (Inr s, fs') \<Rightarrow>
          (case derive_key pbkdf2 \<lparr>master_password = password, salt = s\<rparr> of
             Inl e \<Rightarrow> (Inl e, fs')
           | Inr k \<Rightarrow>
               (case fernet_new F k of
                  Inl e \<Rightarrow> (Inl e, fs')
                | Inr f \<Rightarrow>
                    (Inr \<lparr>master_password = password, salt = s, key = k, fernet = f\<rparr>, fs'))))"

definition encrypt ::
  "'f fernet_lib \<Rightarrow> ('f, 'a) crypto_manager_scheme \<Rightarrow> entropy \<Rightarrow> str \<Rightarrow> pyexn + str" where
  "encrypt F self rnd plaintext =
     (if plaintext = [] then Inr []
      else (case str_encode plaintext of
              Inl e \<Rightarrow> Inl e
            | Inr data \<Rightarrow> bytes_decode (fernet_encrypt F (fernet self) rnd data)))"

definition decryption_failed :: str where
  "decryption_failed = str_of ''Decryption failed: ''"

definition decrypt ::
  "'f fernet_lib \<Rightarrow> ('f, 'a) crypto_manager_scheme \<Rightarrow> str \<Rightarrow> pyexn + str" where
  "decrypt F self ciphertext =
     (if ciphertext = [] then Inr []
      else try_except
             (case str_encode ciphertext of
                Inl e \<Rightarrow> Inl e
              | Inr token \<Rightarrow>
                  (case fernet_decrypt F (fernet self) token of
                     Inl e \<Rightarrow> Inl e
                   | Inr decrypted_bytes \<Rightarrow> bytes_decode decrypted_bytes))
             (\<lambda>e. Inl (ValueError (decryption_failed @ exn_str e) (Some e))))"


section \<open>crypto_manager.py: verify_master_password\<close>

text \<open>
  \<open>bcrypt.checkpw(password, hashed)\<close> of the bcrypt library is the parameter \<open>checkpw\<close>:
  it answers whether the password matches, or raises on a hash it cannot read.
\<close>

definition verify_master_password ::
  "(bytes \<Rightarrow> bytes \<Rightarrow> pyexn + bool) \<Rightarrow> str \<Rightarrow> str \<Rightarrow> pyexn + bool" where
  "verify_master_password checkpw password hashed =
     try_except
       (case str_encode password of
          Inl e \<Rightarrow> Inl e
        | Inr p \<Rightarrow>
            (case str_encode hashed of
               Inl e \<Rightarrow> Inl e
             | Inr h \<Rightarrow> checkpw p h))
       (\<lambda>e. Inr False)"

text \<open>The UTF-8 encoding of a string that has one.\<close>

definition utf8_bytes :: "str \<Rightarrow> bytes" where
  "utf8_bytes s = concat (map utf8_encode_char s)"

text \<open>
  What the Fernet library promises about one call of \<open>encrypt\<close>: the token is not
  empty, it is text of the URL-safe base64 alphabet, hence ASCII, and \<open>decrypt\<close> of the
  same instance gives the data back.
\<close>

definition fernet_round_trip :: "'f fernet_lib \<Rightarrow> 'f \<Rightarrow> entropy \<Rightarrow> bytes \<Rightarrow> bool" where
  "fernet_round_trip F f rnd data =
     (let token = fernet_encrypt F f rnd data
      in token \<noteq> [] \<and> list_all (\<lambda>b. unat b < 128) token
         \<and> fernet_decrypt F f token = Inr data)"


section \<open>Stand-ins for the libraries, for examples\<close>

text \<open>
  Simple functions with the interfaces of PBKDF2, Fernet, bcrypt and the random source,
  on which the examples run. A token of \<open>demo_fernet\<close> is the marker \<open>gAAAAA\<close> followed
  by a check byte and the data, two letters per byte; the check byte is the sum of the
  key and of the data. Its \<open>decrypt\<close> reads back only a token of this form whose check
  byte fits the key.
\<close>

definition demo_urandom :: "nat \<Rightarrow> bytes" where
  "demo_urandom n = replicate n 0x5A"

definition demo_pbkdf2 :: kdf where
  "demo_pbkdf2 password s iterations len = replicate len (of_nat (length password + length s))"

definition letters :: "byte \<Rightarrow> bytes" where
  "letters b = [of_nat (97 + unat b div 16), of_nat (97 + unat b mod 16)]"

fun unletters :: "bytes \<Rightarrow> bytes option" where
  "unletters [] = Some []"
| "unletters [h] = None"
| "unletters (h # l # rest) =
     (if 97 \<le> unat h \<and> unat h < 113 \<and> 97 \<le> unat l \<and> unat l < 113
      then map_option (\<lambda>bs. of_nat ((unat h - 97) * 16 + (unat l - 97)) # bs) (unletters rest)
      else None)"

definition token_marker :: bytes where
  "token_marker = map of_char ''gAAAAA''"

definition check_byte :: "bytes \<Rightarrow> bytes \<Rightarrow> byte" where
  "check_byte k data = sum_list k + sum_list data"

definition demo_decrypt :: "bytes \<Rightarrow> bytes \<Rightarrow> pyexn + bytes" where
  "demo_decrypt k token =
     (if take 6 token = token_marker
      then (case unletters (drop 6 token) of
              Some (t # data) \<Rightarrow>
                if t = check_byte k data then Inr data
                else Inl (InvalidToken
                       (Some (LibraryError (str_of ''InvalidSignature'')
                                (str_of ''Signature did not match digest.''))))
            | _ \<Rightarrow> Inl (InvalidToken None))
      else Inl (InvalidToken None))"

definition demo_fernet :: "bytes fernet_lib" where
  "demo_fernet =
     \<lparr>fernet_new = (\<lambda>k. if length k = 44 then Inr k
                        else Inl (ValueError
                               (str_of ''Fernet key must be 32 url-safe base64-encoded bytes.'')
                               None)),
      fernet_encrypt = (\<lambda>k rnd data.
         token_marker @ letters (check_byte k data) @ concat (map letters data)),
      fernet_decrypt = demo_decrypt\<rparr>"

definition demo_checkpw :: "bytes \<Rightarrow> bytes \<Rightarrow> pyexn + bool" where
  "demo_checkpw password hashed =
     (if take 4 hashed = map of_char ''$2b$'' then Inr (drop 4 hashed = password)
      else Inl (ValueError (str_of ''Invalid salt'') None))"

text \<open>Two objects with the same master password and salt, bound to different keys.\<close>

definition demo_manager :: "bytes crypto_manager" where
  "demo_manager =
     \<lparr>master_password = str_of ''Tr0ub4dor&3'', salt = replicate 16 0x5A,
      key = [75, 49], fernet = [75, 49]\<rparr>"

definition other_manager :: "bytes crypto_manager" where
  "other_manager =
     \<lparr>master_password = str_of ''Tr0ub4dor&3'', salt = replicate 16 0x5A,
      key = [75, 50], fernet = [75, 50]\<rparr>"

text \<open>A working directory whose salt file holds three bytes.\<close>

definition short_salt_fs :: filesystem where
  "short_salt_fs = \<lparr>files = [SALT_FILE \<mapsto> Regular [1, 2, 3]], can_create = True\<rparr>"

text \<open>A vault with one credential, for examples.\<close>

definition example_db :: database where
  "example_db =
     \<lparr>credentials =
        [\<lparr>cred_id = 1, website = str_of ''example.org'', username = str_of ''alice'',
          encrypted_password = str_of ''gAAAAA'', url = Some [], notes_text = Some [],
          created_at = Some (str_of ''2024-01-01 00:00:00''),
          modified_at = Some (str_of ''2024-01-01 00:00:00'')\<rparr>],
      settings = []\<rparr>"

section \<open>Properties of validate_password_strength\<close>

lemma has_special_iff: "has_special p \<longleftrightarrow> (\<exists>c \<in> set p. c \<in> set special_characters)"
  by (simp add: has_special_def list_ex_iff)

lemma classes_present_eq:
  "classes_present U p =
     (if has_upper U p then {Uppercase} else {}) \<union> (if has_lower U p then {Lowercase} else {})
     \<union> (if has_digit U p then {Digit} else {}) \<union> (if has_special p then {Symbol} else {})"
proof -
  have "k \<in> classes_present U p \<longleftrightarrow>
        (k = Uppercase \<and> has_upper U p) \<or> (k = Lowercase \<and> has_lower U p)
        \<or> (k = Digit \<and> has_digit U p) \<or> (k = Symbol \<and> has_special p)" for k
    by (cases k) (simp_all add: classes_present_def has_upper_def has_lower_def has_digit_def
        has_special_iff list_ex_iff)
  then show ?thesis by auto
qed

lemma card_classes_present:
  "card (classes_present U p) = sum_bools (strength_checks U p)"
  by (simp add: classes_present_eq sum_bools_def strength_checks_def)

lemma set_special:
  "set special_characters =
     {33, 64, 35, 36, 37, 94, 38, 42, 40, 41, 95, 43, 45, 61, 91, 93, 123, 125,
      124, 59, 58, 44, 46, 60, 62, 63}"
  by (simp add: special_characters_def str_of_def)

lemmas validate_unfold =
  validate_password_strength_def str_of_def sum_bools_def strength_checks_def
  has_upper_def has_lower_def has_digit_def has_special_iff set_special
  isupper_def islower_def isdigit_def

text \<open>
  C6. validate_password_strength accepts a password exactly when it has at least 8
  characters and at least 3 of the 4 classes uppercase, lowercase, digit, symbol occur in
  it. "Ab1!" is rejected as too short, "abcdefgh" is rejected for having too few classes,
  and "Abcdefg1" is accepted.
\<close>

theorem validate_password_strength_spec:
  "fst (validate_password_strength U password) = spec_valid U password
   \<and> validate_password_strength U (str_of ''Ab1!'') = (False, too_short_message)
   \<and> validate_password_strength U (str_of ''abcdefgh'') = (False, too_few_classes_message)
   \<and> validate_password_strength U (str_of ''Abcdefg1'') = (True, [])"
proof (intro conjI)
  show "fst (validate_password_strength U password) = spec_valid U password"
    by (simp add: validate_password_strength_def spec_valid_def card_classes_present not_less)
  show "validate_password_strength U (str_of ''Ab1!'') = (False, too_short_message)"
    by (simp add: validate_password_strength_def str_of_def)
  show "validate_password_strength U (str_of ''abcdefgh'') = (False, too_few_classes_message)"
    by (simp add: validate_unfold)
  show "validate_password_strength U (str_of ''Abcdefg1'') = (True, [])"
    by (simp add: validate_unfold)
qed

theorem validate_password_strength_spec_witness:
  "spec_valid ascii_db (str_of ''Abcdefg1'')
   \<and> fst (validate_password_strength ascii_db (str_of ''Abcdefg1''))"
proof -
  from validate_password_strength_spec [of ascii_db "str_of ''Abcdefg1''"]
  have e: "fst (validate_password_strength ascii_db (str_of ''Abcdefg1''))
           = spec_valid ascii_db (str_of ''Abcdefg1'')"
    and v: "validate_password_strength ascii_db (str_of ''Abcdefg1'') = (True, [])"
    by blast+
  from v have "fst (validate_password_strength ascii_db (str_of ''Abcdefg1''))" by simp
  with e show ?thesis by simp
qed

lemma ascii_ranges:
  "set [65..<91] \<subseteq> set ascii_alphanumeric"
  "set [97..<123] \<subseteq> set ascii_alphanumeric"
  "set [48..<58] \<subseteq> set ascii_alphanumeric"
  unfolding ascii_alphanumeric_def str_of_def by code_simp+

lemma ascii_not_alphanumeric:
  assumes "c < 128" "c \<notin> set ascii_alphanumeric"
  shows "\<not> (65 \<le> c \<and> c \<le> 90)" "\<not> (97 \<le> c \<and> c \<le> 122)" "\<not> (48 \<le> c \<and> c \<le> 57)"
proof -
  show "\<not> (65 \<le> c \<and> c \<le> 90)"
  proof
    assume h: "65 \<le> c \<and> c \<le> 90"
    then have "c \<in> {65..<91}" by simp
    then have "c \<in> set [65..<91]" by (simp only: set_upt)
    with ascii_ranges(1) assms(2) show False by blast
  qed
  show "\<not> (97 \<le> c \<and> c \<le> 122)"
  proof
    assume h: "97 \<le> c \<and> c \<le> 122"
    then have "c \<in> {97..<123}" by simp
    then have "c \<in> set [97..<123]" by (simp only: set_upt)
    with ascii_ranges(2) assms(2) show False by blast
  qed
  show "\<not> (48 \<le> c \<and> c \<le> 57)"
  proof
    assume h: "48 \<le> c \<and> c \<le> 57"
    then have "c \<in> {48..<58}" by simp
    then have "c \<in> set [48..<58]" by (simp only: set_upt)
    with ascii_ranges(3) assms(2) show False by blast
  qed
qed

lemma ascii_outside_classes:
  assumes "c < 128" "c \<notin> set ascii_alphanumeric"
  shows "\<not> isalnum U c \<and> \<not> isupper U c \<and> \<not> islower U c"
  using assms ascii_not_alphanumeric [OF assms]
  by (simp add: isalnum_def isalpha_def isdecimal_def isdigit_def isnumeric_def isupper_def
      islower_def)

lemma no_class:
  assumes "c \<notin> set special_characters" "\<not> isalnum U c" "\<not> isupper U c" "\<not> islower U c"
  shows "\<not> in_class U k c"
  using assms by (cases k) (simp_all add: isalnum_def)

lemma strength_checks_insert:
  assumes "c \<notin> set special_characters" "\<not> isalnum U c" "\<not> isupper U c" "\<not> islower U c"
  shows "strength_checks U (p @ c # q) = strength_checks U (p @ q)"
  using assms
  by (simp add: strength_checks_def has_upper_def has_lower_def has_digit_def has_special_def
      list_ex_iff isalnum_def)

lemma examples_outside:
  "\<forall>x \<in> set [32, 126, 96, 34, 92].
     x < 128 \<and> x \<notin> set ascii_alphanumeric \<and> x \<notin> set special_characters"
  by (simp add: set_special ascii_alphanumeric_def str_of_def)

text \<open>
  C9 (as amended). The special-character class of validate_password_strength is satisfied
  only by the 26 characters of the fixed set "!@#$%^&*()_+-=[]{}|;:,.<>?". Any other
  non-alphanumeric character that is neither uppercase nor lowercase for \<open>str.isupper\<close>
  and \<open>str.islower\<close> belongs to none of the four classes: put anywhere into a password it
  makes the password one character longer and changes none of the four class checks.
  Every ASCII character that is no letter and no digit is such a character; space, tilde,
  backquote, double quote and backslash (code points 32, 126, 96, 34, 92) are, and they
  are outside the fixed set.
\<close>

theorem special_class_is_fixed_set:
  "(has_special password \<longleftrightarrow>
      (\<exists>c \<in> set password.
         c \<in> {33, 64, 35, 36, 37, 94, 38, 42, 40, 41, 95, 43, 45, 61, 91, 93, 123, 125,
              124, 59, 58, 44, 46, 60, 62, 63}))
   \<and> (c \<notin> set special_characters \<and> \<not> isalnum U c \<and> \<not> isupper U c \<and> \<not> islower U c \<longrightarrow>
        (\<forall>k. \<not> in_class U k c)
        \<and> length (p @ c # q) = Suc (length (p @ q))
        \<and> strength_checks U (p @ c # q) = strength_checks U (p @ q))
   \<and> (a < 128 \<and> a \<notin> set ascii_alphanumeric \<longrightarrow>
        \<not> isalnum U a \<and> \<not> isupper U a \<and> \<not> islower U a)
   \<and> (\<forall>x \<in> set [32, 126, 96, 34, 92].
        x < 128 \<and> x \<notin> set ascii_alphanumeric \<and> x \<notin> set special_characters)"
proof (intro conjI)
  show "has_special password \<longleftrightarrow>
      (\<exists>c \<in> set password.
         c \<in> {33, 64, 35, 36, 37, 94, 38, 42, 40, 41, 95, 43, 45, 61, 91, 93, 123, 125,
              124, 59, 58, 44, 46, 60, 62, 63})"
    unfolding has_special_iff set_special ..
  show "c \<notin> set special_characters \<and> \<not> isalnum U c \<and> \<not> isupper U c \<and> \<not> islower U c \<longrightarrow>
        (\<forall>k. \<not> in_class U k c)
        \<and> length (p @ c # q) = Suc (length (p @ q))
        \<and> strength_checks U (p @ c # q) = strength_checks U (p @ q)"
    using no_class strength_checks_insert by simp
  show "a < 128 \<and> a \<notin> set ascii_alphanumeric \<longrightarrow>
        \<not> isalnum U a \<and> \<not> isupper U a \<and> \<not> islower U a"
    using ascii_outside_classes by blast
  show "\<forall>x \<in> set [32, 126, 96, 34, 92].
        x < 128 \<and> x \<notin> set ascii_alphanumeric \<and> x \<notin> set special_characters"
    by (rule examples_outside)
qed

theorem special_class_is_fixed_set_witness:
  "32 \<notin> set special_characters \<and> 32 < (128 :: nat) \<and> 32 \<notin> set ascii_alphanumeric
   \<and> \<not> isalnum ascii_db 32 \<and> \<not> isupper ascii_db 32 \<and> \<not> islower ascii_db 32
   \<and> (\<forall>k. \<not> in_class ascii_db k 32)
   \<and> strength_checks ascii_db (str_of ''Ab1'' @ 32 # str_of ''xyz'')
       = strength_checks ascii_db (str_of ''Ab1'' @ str_of ''xyz'')
   \<and> validate_password_strength ascii_db (str_of ''Ab      '') = (False, too_few_classes_message)"
proof -
  have h: "32 \<notin> set special_characters" "32 < (128 :: nat)" "32 \<notin> set ascii_alphanumeric"
    by (simp_all add: set_special ascii_alphanumeric_def str_of_def)
  have v: "validate_password_strength ascii_db (str_of ''Ab      '')
           = (False, too_few_classes_message)"
    by (simp add: validate_unfold)
  from special_class_is_fixed_set [of "[]" 32 ascii_db "str_of ''Ab1''" "str_of ''xyz''" 32] h v
  show ?thesis by blast
qed

text \<open>
  The claim as stated fails beyond ASCII: the circled capital A (U+24B6) is not
  alphanumeric and is outside the fixed set, yet \<open>isupper\<close> accepts it, so it counts toward
  the uppercase class. With it "abcdef1" becomes a valid password; with a space it does not.
\<close>

theorem circled_capital_counts_as_uppercase:
  "0x24B6 \<notin> set special_characters \<and> \<not> isalnum circled_letters_db 0x24B6
   \<and> in_class circled_letters_db Uppercase 0x24B6
   \<and> validate_password_strength circled_letters_db (0x24B6 # str_of ''abcdef1'') = (True, [])
   \<and> validate_password_strength circled_letters_db (32 # str_of ''abcdef1'')
       = (False, too_few_classes_message)"
  by (simp add: validate_unfold circled_letters_db_def isalnum_def isalpha_def isdecimal_def
      isnumeric_def)


section \<open>Properties of update_credential\<close>

text \<open>
  C10. For every credential id, update_credential with every optional field absent (all
  None) hands no statement to the cursor and leaves the whole database as it was, the
  credential's modified_at timestamp included.
\<close>

theorem update_credential_nothing_to_update:
  "update_statement now credential_id None None None None None = None
   \<and> update_credential now db credential_id None None None None None = Inr db"
  by (simp add: update_statement_def update_credential_def collect_updates_def)

theorem update_credential_nothing_to_update_witness:
  "update_credential (str_of ''2025-06-01T12:00:00'') example_db 1 None None None None None
     = Inr example_db
   \<and> update_credential (str_of ''2025-06-01T12:00:00'') example_db 1 None None None None
        (Some (str_of ''n'')) \<noteq> Inr example_db"
  using update_credential_nothing_to_update [of "str_of ''2025-06-01T12:00:00''" 1 example_db]
  by (simp add: update_statement_def update_credential_def collect_updates_def example_db_def
      str_of_def str_encode_def is_surrogate_def)

section \<open>Properties of the salt file and of key derivation\<close>

lemma load_existing_salt:
  "files fs SALT_FILE = Some (Regular content)
     \<Longrightarrow> load_or_create_salt urandom fs = (Inr content, fs)"
  by (simp add: load_or_create_salt_def path_exists_def read_file_def)

lemma length_urlsafe_b64encode:
  "length (urlsafe_b64encode bs) = 4 * ((length bs + 2) div 3)"
proof (induction bs rule: urlsafe_b64encode.induct)
  case (4 a b c rest)
  have "(length (a # b # c # rest) + 2) div 3 = Suc ((length rest + 2) div 3)" by simp
  with 4 show ?case by simp
qed simp_all

lemma str_encode_demo_password:
  "str_encode (str_of ''Tr0ub4dor&3'') = Inr (map of_char ''Tr0ub4dor&3'')"
  by (simp add: str_of_def str_encode_def is_surrogate_def utf8_encode_char_def)

text \<open>
  C4. A salt file that exists but has the wrong length must stop initialisation. The
  code does not do so: on a working directory whose salt file holds the three bytes
  1, 2, 3, \<open>_load_or_create_salt\<close> returns these three bytes as the salt, touches nothing,
  and \<open>__init__\<close> completes with them.
\<close>

theorem load_or_create_salt_accepts_short_salt:
  "load_or_create_salt demo_urandom short_salt_fs = (Inr [1, 2, 3], short_salt_fs)
   \<and> map_sum id salt
        (fst (init demo_fernet demo_pbkdf2 demo_urandom short_salt_fs (str_of ''Tr0ub4dor&3'')))
       = Inr [1, 2, 3]"
proof -
  have f: "files short_salt_fs SALT_FILE = Some (Regular [1, 2, 3])"
    by (simp add: short_salt_fs_def)
  have l: "load_or_create_salt demo_urandom short_salt_fs = (Inr [1, 2, 3], short_salt_fs)"
    by (rule load_existing_salt [OF f])
  have k: "derive_key demo_pbkdf2 \<lparr>master_password = str_of ''Tr0ub4dor&3'', salt = [1, 2, 3]\<rparr>
           = Inr (urlsafe_b64encode (replicate 32 14))"
    by (simp add: derive_key_def str_encode_demo_password demo_pbkdf2_def)
  have n: "fernet_new demo_fernet (urlsafe_b64encode (replicate 32 14))
           = Inr (urlsafe_b64encode (replicate 32 14))"
    by (simp add: demo_fernet_def length_urlsafe_b64encode)
  show ?thesis by (simp add: init_def l k n)
qed

text \<open>
  C3 (as amended). \<open>_derive_key\<close> depends on nothing but the master password, the salt
  and the constant iteration count: two objects that agree on master password and salt
  derive the same key. When the master password has a UTF-8 encoding and PBKDF2 yields the
  32 bytes asked for, the result is the URL-safe base64 text of these 32 bytes, which is
  44 bytes long.
\<close>

theorem derive_key_deterministic_base64:
  "(master_password a = master_password b \<and> salt a = salt b
      \<longrightarrow> derive_key pbkdf2 a = derive_key pbkdf2 b)
   \<and> (str_encode (master_password a) = Inr p \<and> length (pbkdf2 p (salt a) ITERATIONS 32) = 32
      \<longrightarrow> derive_key pbkdf2 a = Inr (urlsafe_b64encode (pbkdf2 p (salt a) ITERATIONS 32))
          \<and> length (urlsafe_b64encode (pbkdf2 p (salt a) ITERATIONS 32)) = 44)"
  by (auto simp add: derive_key_def length_urlsafe_b64encode split: sum.splits)

theorem derive_key_deterministic_base64_witness:
  "master_password demo_manager = master_password other_manager
   \<and> salt demo_manager = salt other_manager
   \<and> fernet demo_manager \<noteq> fernet other_manager
   \<and> derive_key demo_pbkdf2 demo_manager = derive_key demo_pbkdf2 other_manager
   \<and> str_encode (master_password demo_manager) = Inr (map of_char ''Tr0ub4dor&3'')
   \<and> length (demo_pbkdf2 (map of_char ''Tr0ub4dor&3'') (salt demo_manager) ITERATIONS 32) = 32
   \<and> derive_key demo_pbkdf2 demo_manager
       = Inr (urlsafe_b64encode
               (demo_pbkdf2 (map of_char ''Tr0ub4dor&3'') (salt demo_manager) ITERATIONS 32))"
proof -
  have m: "master_password demo_manager = master_password other_manager"
    and s: "salt demo_manager = salt other_manager"
    and f: "fernet demo_manager \<noteq> fernet other_manager"
    by (simp_all add: demo_manager_def other_manager_def)
  have e: "str_encode (master_password demo_manager) = Inr (map of_char ''Tr0ub4dor&3'')"
    by (simp add: demo_manager_def str_encode_demo_password)
  have l: "length (demo_pbkdf2 (map of_char ''Tr0ub4dor&3'') (salt demo_manager) ITERATIONS 32)
           = 32"
    by (simp add: demo_pbkdf2_def)
  from derive_key_deterministic_base64
         [of demo_manager other_manager demo_pbkdf2 "map of_char ''Tr0ub4dor&3''"] m s e l f
  show ?thesis by blast
qed

theorem derive_key_output_not_32_bytes:
  "map_sum id length (derive_key demo_pbkdf2 demo_manager) = Inr 44
   \<and> map_sum id length (derive_key demo_pbkdf2 demo_manager) \<noteq> Inr 32"
  by (simp add: derive_key_def demo_manager_def str_encode_demo_password
      length_urlsafe_b64encode demo_pbkdf2_def)


section \<open>Properties of verify_master_password\<close>

text \<open>
  C5. For every password and every hash string, verify_master_password returns a boolean
  and raises nothing; on a malformed hash, that is one that has no encoding or that bcrypt
  rejects with an exception, it returns False.
\<close>

theorem verify_master_password_never_raises:
  "(\<exists>b. verify_master_password checkpw password hashed = Inr b)
   \<and> (\<forall>e. str_encode hashed = Inl e
         \<longrightarrow> verify_master_password checkpw password hashed = Inr False)
   \<and> (\<forall>e. str_encode password = Inl e
         \<longrightarrow> verify_master_password checkpw password hashed = Inr False)
   \<and> (\<forall>p h e. str_encode password = Inr p \<and> str_encode hashed = Inr h \<and> checkpw p h = Inl e
         \<longrightarrow> verify_master_password checkpw password hashed = Inr False)"
  by (auto simp: verify_master_password_def try_except_def split: sum.splits)

theorem verify_master_password_never_raises_witness:
  "str_encode (str_of ''pw'') = Inr [112, 119]
   \<and> str_encode (str_of ''junk'') = Inr [106, 117, 110, 107]
   \<and> demo_checkpw [112, 119] [106, 117, 110, 107] = Inl (ValueError (str_of ''Invalid salt'') None)
   \<and> verify_master_password demo_checkpw (str_of ''pw'') (str_of ''junk'') = Inr False"
  using verify_master_password_never_raises [of demo_checkpw "str_of ''pw''" "str_of ''junk''"]
  by (simp add: str_of_def str_encode_def is_surrogate_def utf8_encode_char_def demo_checkpw_def)


section \<open>Properties of encrypt and decrypt\<close>

text \<open>
  C7. encrypt of the empty string is the empty string, and decrypt of the empty string is
  the empty string, without error; this holds whatever the Fernet operations and the key
  are, so neither is consulted.
\<close>

theorem encrypt_decrypt_empty:
  "encrypt F self rnd [] = Inr [] \<and> decrypt F self [] = Inr []"
  by (simp add: encrypt_def decrypt_def)

theorem encrypt_decrypt_empty_witness:
  "encrypt demo_fernet demo_manager ([], 0) (str_of '''') = Inr (str_of '''')
   \<and> decrypt demo_fernet demo_manager (str_of '''') = Inr (str_of '''')"
  using encrypt_decrypt_empty [of demo_fernet demo_manager "([], 0)"]
  by (simp add: str_of_def)

section \<open>The UTF-8 codec decodes what it encodes\<close>

lemma unat_byte: "n < 256 \<Longrightarrow> unat (of_nat n :: byte) = n"
  by (simp add: unat_of_nat)

lemma step_one:
  assumes "unat b0 = c" "c < 0x80"
  shows "utf8_decode_step b0 rest = Inr (c, 1)"
  using assms by (simp add: utf8_decode_step_def)

lemma step_two:
  assumes "unat b0 = 0xC0 + q" "2 \<le> q" "q < 32" "unat b1 = 0x80 + r" "r < 64"
  shows "utf8_decode_step b0 (b1 # rest) = Inr (q * 64 + r, 2)"
  using assms by (simp add: utf8_decode_step_def decode_two_def is_continuation_def)

lemma step_three:
  assumes "unat b0 = 0xE0 + p" "p < 16" "unat b1 = 0x80 + q" "q < 64" "unat b2 = 0x80 + r" "r < 64"
    and "p = 0 \<longrightarrow> 32 \<le> q" and "p = 13 \<longrightarrow> q < 32"
  shows "utf8_decode_step b0 (b1 # b2 # rest) = Inr (p * 4096 + q * 64 + r, 3)"
  using assms by (auto simp add: utf8_decode_step_def decode_three_def is_continuation_def Let_def)

lemma step_four:
  assumes "unat b0 = 0xF0 + n" "n < 5" "unat b1 = 0x80 + p" "p < 64" "unat b2 = 0x80 + q" "q < 64"
    and "unat b3 = 0x80 + r" "r < 64"
    and "n = 0 \<longrightarrow> 16 \<le> p" and "n = 4 \<longrightarrow> p < 16"
  shows "utf8_decode_step b0 (b1 # b2 # b3 # rest) = Inr (n * 262144 + p * 4096 + q * 64 + r, 4)"
  using assms by (auto simp add: utf8_decode_step_def decode_four_def is_continuation_def Let_def)


lemma split_three: "(c::nat) div 4096 * 4096 + c div 64 mod 64 * 64 + c mod 64 = c"
proof -
  have "c mod (64 * 64) = 64 * (c div 64 mod 64) + c mod 64" by (rule mod_mult2_eq)
  then have "c mod 4096 = c div 64 mod 64 * 64 + c mod 64" by simp
  moreover have "c div 4096 * 4096 + c mod 4096 = c" by simp
  ultimately show ?thesis by linarith
qed

lemma split_four:
  "(c::nat) div 262144 * 262144 + c div 4096 mod 64 * 4096 + c div 64 mod 64 * 64 + c mod 64 = c"
proof -
  have "c mod (4096 * 64) = 4096 * (c div 4096 mod 64) + c mod 4096" by (rule mod_mult2_eq)
  then have "c mod 262144 = c div 4096 mod 64 * 4096 + c mod 4096" by simp
  moreover have "c mod (64 * 64) = 64 * (c div 64 mod 64) + c mod 64" by (rule mod_mult2_eq)
  then have "c mod 4096 = c div 64 mod 64 * 64 + c mod 64" by simp
  moreover have "c div 262144 * 262144 + c mod 262144 = c" by simp
  ultimately show ?thesis by linarith
qed

lemma decode_from_step:
  assumes "utf8_decode_step b bs = Inr (c, k)" "drop (k - 1) bs = rest"
  shows "utf8_decode_from i obj (b # bs) =
         (case utf8_decode_from (i + k) obj rest of Inl e \<Rightarrow> Inl e | Inr s \<Rightarrow> Inr (c # s))"
  using assms by simp

lemma decode_encode_char:
  assumes "c < 0x110000" "\<not> is_surrogate c"
  shows "utf8_decode_from i obj (utf8_encode_char c @ rest) =
         (case utf8_decode_from (i + length (utf8_encode_char c)) obj rest of
            Inl e \<Rightarrow> Inl e | Inr s \<Rightarrow> Inr (c # s))"
proof -
  consider (one) "c < 0x80" | (two) "0x80 \<le> c" "c < 0x800" | (three) "0x800 \<le> c" "c < 0x10000"
    | (four) "0x10000 \<le> c" by linarith
  then show ?thesis
  proof cases
    case one
    define b0 :: byte where "b0 = of_nat c"
    have u: "unat b0 = c" unfolding b0_def using one by (intro unat_byte) simp
    have e: "utf8_encode_char c = [b0]" using one by (simp add: utf8_encode_char_def b0_def)
    have s: "utf8_decode_step b0 rest = Inr (c, 1)" by (rule step_one [OF u one])
    have d: "drop (1 - 1) rest = rest" by simp
    have len: "length (utf8_encode_char c) = 1"
      and app: "utf8_encode_char c @ rest = b0 # rest" by (simp_all add: e)
    show ?thesis unfolding len app by (rule decode_from_step [OF s d])
  next
    case two
    define b0 :: byte where "b0 = of_nat (0xC0 + c div 64)"
    define b1 :: byte where "b1 = of_nat (0x80 + c mod 64)"
    have q: "2 \<le> c div 64" "c div 64 < 32" using two by auto
    have u0: "unat b0 = 0xC0 + c div 64" unfolding b0_def using q by (intro unat_byte) simp
    have u1: "unat b1 = 0x80 + c mod 64" unfolding b1_def by (intro unat_byte) simp
    have e: "utf8_encode_char c = [b0, b1]"
      using two by (simp add: utf8_encode_char_def b0_def b1_def)
    have s: "utf8_decode_step b0 (b1 # rest) = Inr (c, 2)"
      using step_two [OF u0 q u1, of rest] by simp
    have d: "drop (2 - 1) (b1 # rest) = rest" by simp
    have len: "length (utf8_encode_char c) = 2"
      and app: "utf8_encode_char c @ rest = b0 # b1 # rest" by (simp_all add: e)
    show ?thesis unfolding len app by (rule decode_from_step [OF s d])
  next
    case three
    define b0 :: byte where "b0 = of_nat (0xE0 + c div 4096)"
    define b1 :: byte where "b1 = of_nat (0x80 + c div 64 mod 64)"
    define b2 :: byte where "b2 = of_nat (0x80 + c mod 64)"
    have p: "c div 4096 < 16" using three by auto
    have u0: "unat b0 = 0xE0 + c div 4096" unfolding b0_def using p by (intro unat_byte) simp
    have u1: "unat b1 = 0x80 + c div 64 mod 64" unfolding b1_def by (intro unat_byte) simp
    have u2: "unat b2 = 0x80 + c mod 64" unfolding b2_def by (intro unat_byte) simp
    have lo: "c div 4096 = 0 \<longrightarrow> 32 \<le> c div 64 mod 64" using three by auto
    have v: "c div 4096 * 4096 + c div 64 mod 64 * 64 + c mod 64 = c" by (rule split_three)
    have hi: "c div 4096 = 13 \<longrightarrow> c div 64 mod 64 < 32"
    proof (intro impI, rule ccontr)
      define q where "q = c div 64 mod 64"
      define r where "r = c mod 64"
      assume "c div 4096 = 13" and "\<not> c div 64 mod 64 < 32"
      with v have "13 * 4096 + q * 64 + r = c" and "32 \<le> q" by (simp_all add: q_def r_def)
      moreover have "q < 64" "r < 64" by (simp_all add: q_def r_def)
      ultimately have "0xD800 \<le> c \<and> c \<le> 0xDFFF" by linarith
      with assms(2) show False by (simp add: is_surrogate_def)
    qed
    have e: "utf8_encode_char c = [b0, b1, b2]"
      using three by (simp add: utf8_encode_char_def b0_def b1_def b2_def)
    have s: "utf8_decode_step b0 (b1 # b2 # rest) = Inr (c, 3)"
      using step_three [OF u0 p u1 _ u2 _ lo hi, of rest] v by simp
    have d: "drop (3 - 1) (b1 # b2 # rest) = rest" by simp
    have len: "length (utf8_encode_char c) = 3"
      and app: "utf8_encode_char c @ rest = b0 # b1 # b2 # rest" by (simp_all add: e)
    show ?thesis unfolding len app by (rule decode_from_step [OF s d])
  next
    case four
    define b0 :: byte where "b0 = of_nat (0xF0 + c div 262144)"
    define b1 :: byte where "b1 = of_nat (0x80 + c div 4096 mod 64)"
    define b2 :: byte where "b2 = of_nat (0x80 + c div 64 mod 64)"
    define b3 :: byte where "b3 = of_nat (0x80 + c mod 64)"
    have n: "c div 262144 < 5" using assms(1) by auto
    have u0: "unat b0 = 0xF0 + c div 262144" unfolding b0_def using n by (intro unat_byte) simp
    have u1: "unat b1 = 0x80 + c div 4096 mod 64" unfolding b1_def by (intro unat_byte) simp
    have u2: "unat b2 = 0x80 + c div 64 mod 64" unfolding b2_def by (intro unat_byte) simp
    have u3: "unat b3 = 0x80 + c mod 64" unfolding b3_def by (intro unat_byte) simp
    have lo: "c div 262144 = 0 \<longrightarrow> 16 \<le> c div 4096 mod 64" using four by auto
    have v: "c div 262144 * 262144 + c div 4096 mod 64 * 4096 + c div 64 mod 64 * 64 + c mod 64 = c"
      by (rule split_four)
    have hi: "c div 262144 = 4 \<longrightarrow> c div 4096 mod 64 < 16"
    proof (intro impI, rule ccontr)
      define p where "p = c div 4096 mod 64"
      define q where "q = c div 64 mod 64"
      define r where "r = c mod 64"
      assume "c div 262144 = 4" and "\<not> c div 4096 mod 64 < 16"
      with v have "4 * 262144 + p * 4096 + q * 64 + r = c" and "16 \<le> p"
        by (simp_all add: p_def q_def r_def)
      then have "0x110000 \<le> c" by linarith
      with assms(1) show False by simp
    qed
    have e: "utf8_encode_char c = [b0, b1, b2, b3]"
      using four by (simp add: utf8_encode_char_def b0_def b1_def b2_def b3_def)
    have s: "utf8_decode_step b0 (b1 # b2 # b3 # rest) = Inr (c, 4)"
      using step_four [OF u0 n u1 _ u2 _ u3 _ lo hi, of rest] v by simp
    have d: "drop (4 - 1) (b1 # b2 # b3 # rest) = rest" by simp
    have len: "length (utf8_encode_char c) = 4"
      and app: "utf8_encode_char c @ rest = b0 # b1 # b2 # b3 # rest" by (simp_all add: e)
    show ?thesis unfolding len app by (rule decode_from_step [OF s d])
  qed
qed

declare utf8_decode_from.simps(2) [simp del]

lemma decode_utf8_bytes:
  "encodable s \<Longrightarrow> utf8_decode_from i obj (utf8_bytes s) = Inr s"
proof (induction s arbitrary: i)
  case Nil
  show ?case by (simp add: utf8_bytes_def)
next
  case (Cons c s)
  then have c: "c < 0x110000" "\<not> is_surrogate c" and s: "encodable s"
    by (simp_all add: encodable_def)
  have "utf8_bytes (c # s) = utf8_encode_char c @ utf8_bytes s" by (simp add: utf8_bytes_def)
  then show ?case by (simp add: decode_encode_char [OF c] Cons.IH [OF s])
qed

lemma encode_encodable:
  "encodable s \<Longrightarrow> utf8_encode_from i obj s = Inr (utf8_bytes s)"
  by (induction s arbitrary: i) (simp_all add: encodable_def utf8_bytes_def)

lemma str_encode_encodable: "encodable s \<Longrightarrow> str_encode s = Inr (utf8_bytes s)"
  by (simp add: str_encode_def encode_encodable)

lemma bytes_decode_utf8_bytes: "encodable s \<Longrightarrow> bytes_decode (utf8_bytes s) = Inr s"
  by (simp add: bytes_decode_def decode_utf8_bytes)

lemma ascii_text:
  assumes "list_all (\<lambda>b. unat b < 128) t"
  shows "encodable (map unat t)" "utf8_bytes (map unat t) = t"
  using assms
  by (induction t) (simp_all add: encodable_def utf8_bytes_def is_surrogate_def utf8_encode_char_def)


section \<open>Properties of encrypt and decrypt on non-empty strings\<close>

text \<open>
  C1 (as amended). For every non-empty plaintext that has a UTF-8 encoding (its code points
  are in the Unicode range and none is a surrogate) and every Fernet instance, whatever
  key it is bound to: if the library keeps its promise on this call (the token is
  non-empty base64 text and decrypts to the data under the same instance), then encrypt
  returns a ciphertext and decrypt of that ciphertext returns exactly the plaintext.
\<close>

theorem encrypt_decrypt_round_trip:
  assumes "plaintext \<noteq> []" and "encodable plaintext"
    and "fernet_round_trip F (fernet self) rnd (utf8_bytes plaintext)"
  shows "\<exists>c. encrypt F self rnd plaintext = Inr c \<and> decrypt F self c = Inr plaintext"
proof -
  define token where "token = fernet_encrypt F (fernet self) rnd (utf8_bytes plaintext)"
  from assms(3) have ne: "token \<noteq> []" and ascii: "list_all (\<lambda>b. unat b < 128) token"
    and again: "fernet_decrypt F (fernet self) token = Inr (utf8_bytes plaintext)"
    by (simp_all add: fernet_round_trip_def token_def Let_def)
  define c where "c = map unat token"
  have dec: "bytes_decode token = Inr c"
    using bytes_decode_utf8_bytes [OF ascii_text(1) [OF ascii]] ascii_text(2) [OF ascii]
    by (simp add: c_def)
  have enc: "str_encode c = Inr token"
    using str_encode_encodable [OF ascii_text(1) [OF ascii]] ascii_text(2) [OF ascii]
    by (simp add: c_def)
  have "encrypt F self rnd plaintext = Inr c"
    using assms(1) by (simp add: encrypt_def str_encode_encodable [OF assms(2)] dec token_def [symmetric])
  moreover have "c \<noteq> []" using ne by (simp add: c_def)
  then have "decrypt F self c = Inr plaintext"
    by (simp add: decrypt_def enc again bytes_decode_utf8_bytes [OF assms(2)] try_except_def)
  ultimately show ?thesis by blast
qed

theorem encrypt_decrypt_round_trip_witness:
  "[0x68, 0xFC, 0x20AC] \<noteq> ([] :: str) \<and> encodable [0x68, 0xFC, 0x20AC]
   \<and> fernet_round_trip demo_fernet (fernet demo_manager) ([], 0) (utf8_bytes [0x68, 0xFC, 0x20AC])
   \<and> (\<exists>c. encrypt demo_fernet demo_manager ([], 0) [0x68, 0xFC, 0x20AC] = Inr c
           \<and> decrypt demo_fernet demo_manager c = Inr [0x68, 0xFC, 0x20AC])"
proof -
  have e: "encodable [0x68, 0xFC, 0x20AC]" by (simp add: encodable_def is_surrogate_def)
  have u: "utf8_bytes [0x68, 0xFC, 0x20AC] = [0x68, 0xC3, 0xBC, 0xE2, 0x82, 0xAC]"
    by (simp add: utf8_bytes_def utf8_encode_char_def)
  have r: "fernet_round_trip demo_fernet (fernet demo_manager) ([], 0)
             (utf8_bytes [0x68, 0xFC, 0x20AC])"
    unfolding u
    by (simp add: fernet_round_trip_def demo_fernet_def demo_manager_def demo_decrypt_def
        token_marker_def check_byte_def letters_def)
  from encrypt_decrypt_round_trip [OF _ e r] e r show ?thesis by simp
qed

text \<open>
  The claim as stated fails on a plaintext that is a lone surrogate: \<open>encode\<close> raises
  and encrypt returns no ciphertext.
\<close>

theorem encrypt_rejects_lone_surrogate:
  "[0xD800] \<noteq> ([] :: str)
   \<and> encrypt demo_fernet demo_manager ([], 0) [0xD800] = Inl (UnicodeEncodeError [0xD800] 0 1)"
  by (simp add: encrypt_def str_encode_def is_surrogate_def)


text \<open>
  C8 (as amended). Every failing decrypt raises a ValueError whose message is
  "Decryption failed: " followed by the text of the exception that made it fail, and that
  chains this exception as its context. The exception that made it fail is the one raised
  by the first failing step: encoding the ciphertext, Fernet's decrypt, or decoding the
  decrypted bytes; there is no other way to fail. When it is Fernet's InvalidToken (wrong
  key, corruption, tampering, foreign scheme) its text is empty, so all such failures,
  of whatever instance and ciphertext, carry the same message "Decryption failed: ".
\<close>

theorem decrypt_failure_message:
  "(c \<noteq> [] \<and> str_encode c = Inl e
      \<longrightarrow> decrypt F self c = Inl (ValueError (decryption_failed @ exn_str e) (Some e)))
   \<and> (c \<noteq> [] \<and> str_encode c = Inr token \<and> fernet_decrypt F (fernet self) token = Inl e
      \<longrightarrow> decrypt F self c = Inl (ValueError (decryption_failed @ exn_str e) (Some e)))
   \<and> (c \<noteq> [] \<and> str_encode c = Inr token \<and> fernet_decrypt F (fernet self) token = Inr data
        \<and> bytes_decode data = Inl e
      \<longrightarrow> decrypt F self c = Inl (ValueError (decryption_failed @ exn_str e) (Some e)))
   \<and> (decrypt F self c = Inl err
      \<longrightarrow> c \<noteq> []
          \<and> (\<exists>cause. err = ValueError (decryption_failed @ exn_str cause) (Some cause)
                \<and> (str_encode c = Inl cause
                    \<or> (\<exists>t. str_encode c = Inr t
                          \<and> (fernet_decrypt F (fernet self) t = Inl cause
                              \<or> (\<exists>d. fernet_decrypt F (fernet self) t = Inr d
                                    \<and> bytes_decode d = Inl cause))))))
   \<and> (c \<noteq> [] \<and> str_encode c = Inr token
        \<and> fernet_decrypt F (fernet self) token = Inl (InvalidToken ctx)
      \<longrightarrow> decrypt F self c = Inl (ValueError decryption_failed (Some (InvalidToken ctx))))
   \<and> (c \<noteq> [] \<and> str_encode c = Inr token
        \<and> fernet_decrypt F (fernet self) token = Inl (InvalidToken ctx)
        \<and> c' \<noteq> [] \<and> str_encode c' = Inr token'
        \<and> fernet_decrypt F' (fernet self') token' = Inl (InvalidToken ctx')
      \<longrightarrow> map_sum exn_str id (decrypt F self c) = map_sum exn_str id (decrypt F' self' c'))"
  by (auto simp: decrypt_def try_except_def split: sum.splits if_splits)

lemma decrypt_demo_inputs:
  "str_of ''x'' = [120]"
  "str_of ''gAAAAAaa'' = [103, 65, 65, 65, 65, 65, 97, 97]"
  "str_encode [120] = Inr [120]"
  "str_encode [103, 65, 65, 65, 65, 65, 97, 97] = Inr [103, 65, 65, 65, 65, 65, 97, 97]"
  "fernet_decrypt demo_fernet (fernet demo_manager) [120] = Inl (InvalidToken None)"
  "fernet_decrypt demo_fernet (fernet demo_manager) [103, 65, 65, 65, 65, 65, 97, 97]
   = Inl (InvalidToken (Some (LibraryError (str_of ''InvalidSignature'')
                                (str_of ''Signature did not match digest.''))))"
  by (simp_all add: str_of_def str_encode_def is_surrogate_def utf8_encode_char_def
      demo_fernet_def demo_manager_def demo_decrypt_def token_marker_def check_byte_def)

theorem decrypt_failure_message_witness:
  "str_of ''x'' \<noteq> [] \<and> str_encode (str_of ''x'') = Inr [120]
   \<and> fernet_decrypt demo_fernet (fernet demo_manager) [120] = Inl (InvalidToken None)
   \<and> decrypt demo_fernet demo_manager (str_of ''x'')
       = Inl (ValueError decryption_failed (Some (InvalidToken None)))
   \<and> decrypt demo_fernet demo_manager (str_of ''gAAAAAaa'')
       \<noteq> decrypt demo_fernet demo_manager (str_of ''x'')
   \<and> map_sum exn_str id (decrypt demo_fernet demo_manager (str_of ''x''))
       = map_sum exn_str id (decrypt demo_fernet demo_manager (str_of ''gAAAAAaa''))"
proof -
  note t = decrypt_failure_message
    [of "[120]" _ demo_fernet demo_manager "[120]" _ _ None
        "[103, 65, 65, 65, 65, 65, 97, 97]" "[103, 65, 65, 65, 65, 65, 97, 97]"
        demo_fernet demo_manager
        "Some (LibraryError (str_of ''InvalidSignature'')
                 (str_of ''Signature did not match digest.''))"]
  from t decrypt_demo_inputs(3-6)
  have a: "decrypt demo_fernet demo_manager [120]
           = Inl (ValueError decryption_failed (Some (InvalidToken None)))"
    and m: "map_sum exn_str id (decrypt demo_fernet demo_manager [120])
            = map_sum exn_str id
                (decrypt demo_fernet demo_manager [103, 65, 65, 65, 65, 65, 97, 97])"
    by blast+
  have b: "decrypt demo_fernet demo_manager [103, 65, 65, 65, 65, 65, 97, 97]
           = Inl (ValueError decryption_failed
                   (Some (InvalidToken (Some (LibraryError (str_of ''InvalidSignature'')
                                                (str_of ''Signature did not match digest.''))))))"
    by (simp add: decrypt_def try_except_def decrypt_demo_inputs(3-6))
  show ?thesis
    unfolding decrypt_demo_inputs(1,2) using a b m decrypt_demo_inputs(3-6) by simp
qed

lemma surrogate_messages:
  "exn_str (UnicodeEncodeError [0xD800] 0 1)
   = [39] @ str_of ''utf-8'' @ [39] @ str_of '' codec can't encode character '' @ [39, 92]
     @ str_of ''ud800'' @ [39] @ str_of '' in position 0: surrogates not allowed''"
  "exn_str (UnicodeEncodeError [0x78, 0xD800] 1 2)
   = [39] @ str_of ''utf-8'' @ [39] @ str_of '' codec can't encode character '' @ [39, 92]
     @ str_of ''ud800'' @ [39] @ str_of '' in position 1: surrogates not allowed''"
  by (simp_all add: encode_error_text_def codec_name_def escape_char_def hex4_def hex2_def
      hex_digit_def show_nat.simps [of 0] show_nat.simps [of "Suc 0"] str_of_def)

text \<open>
  The claim as stated fails: a ciphertext that is no token and a ciphertext that holds a
  lone surrogate fail with different messages, and the message of the second names the
  offending character and its position (Fernet is not reached on it).
\<close>

theorem decrypt_failures_differ:
  "map_sum exn_str id (decrypt demo_fernet demo_manager (str_of ''x''))
     = Inl (str_of ''Decryption failed: '')
   \<and> map_sum exn_str id (decrypt demo_fernet demo_manager [0xD800])
     = Inl (str_of ''Decryption failed: '' @ [39] @ str_of ''utf-8'' @ [39]
            @ str_of '' codec can't encode character '' @ [39, 92] @ str_of ''ud800'' @ [39]
            @ str_of '' in position 0: surrogates not allowed'')
   \<and> map_sum exn_str id (decrypt demo_fernet demo_manager [0x78, 0xD800])
     = Inl (str_of ''Decryption failed: '' @ [39] @ str_of ''utf-8'' @ [39]
            @ str_of '' codec can't encode character '' @ [39, 92] @ str_of ''ud800'' @ [39]
            @ str_of '' in position 1: surrogates not allowed'')
   \<and> decrypt demo_fernet demo_manager (str_of ''x'')
       \<noteq> decrypt demo_fernet demo_manager [0xD800]"
proof -
  define e0 where "e0 = UnicodeEncodeError [0xD800] 0 1"
  define e1 where "e1 = UnicodeEncodeError [0x78, 0xD800] 1 2"
  have s0: "str_encode [0xD800] = Inl e0" and s1: "str_encode [0x78, 0xD800] = Inl e1"
    by (simp_all add: e0_def e1_def str_encode_def is_surrogate_def)
  have m0: "exn_str e0 = [39] @ str_of ''utf-8'' @ [39]
              @ str_of '' codec can't encode character '' @ [39, 92] @ str_of ''ud800'' @ [39]
              @ str_of '' in position 0: surrogates not allowed''"
    unfolding e0_def by (rule surrogate_messages(1))
  have m1: "exn_str e1 = [39] @ str_of ''utf-8'' @ [39]
              @ str_of '' codec can't encode character '' @ [39, 92] @ str_of ''ud800'' @ [39]
              @ str_of '' in position 1: surrogates not allowed''"
    unfolding e1_def by (rule surrogate_messages(2))
  have x: "decrypt demo_fernet demo_manager (str_of ''x'')
           = Inl (ValueError decryption_failed (Some (InvalidToken None)))"
    unfolding decrypt_demo_inputs(1)
    by (simp add: decrypt_def try_except_def decrypt_demo_inputs(3-6))
  have d0: "decrypt demo_fernet demo_manager [0xD800]
            = Inl (ValueError (decryption_failed @ exn_str e0) (Some e0))"
    by (simp add: decrypt_def try_except_def s0)
  have d1: "decrypt demo_fernet demo_manager [0x78, 0xD800]
            = Inl (ValueError (decryption_failed @ exn_str e1) (Some e1))"
    by (simp add: decrypt_def try_except_def s1)
  have ne: "InvalidToken None \<noteq> e0" by (simp add: e0_def)
  show ?thesis
    unfolding x d0 d1 m0 m1 using ne by (simp add: decryption_failed_def)
qed


end
